theory Spec2Isabelle
  imports Complex_Main "HOL-Library.Log_Nat" "HOL-Library.Word"
begin

section \<open>Concurrent file downloader: the embedding\<close>

text \<open>
  The program is \<^verbatim>\<open>concurrent-file-downloader.py\<close>: a \<^verbatim>\<open>DownloadThread\<close> that
  fetches one URL into one file, a \<^verbatim>\<open>DownloadWidget\<close> that owns one thread and
  receives its signals, and a \<^verbatim>\<open>DownloaderApp\<close> that holds the list of widgets.
  Everything the code takes from outside (the HTTP response, the file system, the
  other thread that sets the interrupt flag, the random UUID, the answer to the
  confirmation dialog) is a parameter of the model.
\<close>

subsection \<open>Python values\<close>

text \<open>
  A Python \<^verbatim>\<open>str\<close> is a sequence of Unicode code points, so it is a list of
  naturals here; \<open>lit\<close> turns a literal of the source into one. \<^verbatim>\<open>bytes\<close> are
  lists of 8-bit words.
\<close>

type_synonym str = "nat list"
type_synonym bytes = "8 word list"

definition lit :: "string \<Rightarrow> str" where
  "lit s = map of_char s"

text \<open>
  The two handlers of \<^verbatim>\<open>run\<close> tell \<^verbatim>\<open>InterruptedError\<close> from every other
  \<^verbatim>\<open>Exception\<close>; an exception carries the text \<^verbatim>\<open>str(e)\<close> gives.
\<close>

datatype exn = InterruptedError str | OtherException str

subsection \<open>The percentage: \<^verbatim>\<open>int((downloaded / total_size) * 100)\<close>\<close>

text \<open>
  \<^verbatim>\<open>downloaded / total_size\<close> is Python's true division of two integers: the
  exact quotient rounded once to the nearest binary64 value, ties to even, and an
  \<^verbatim>\<open>OverflowError\<close> when that is not finite. The product with \<^verbatim>\<open>100\<close> is a
  binary64 multiplication (rounded the same way, infinite on overflow), and
  \<^verbatim>\<open>int\<close> truncates towards zero and raises \<^verbatim>\<open>OverflowError\<close> on an infinity.
  Finite binary64 values are rationals here.

  \<open>ilog2 q\<close> is, for positive \<open>q\<close>, the exponent \<open>e\<close> with \<open>2^e \<le> q < 2^(e+1)\<close>.
  \<open>round_double\<close> rounds to 53 significant bits, with the spacing of the
  subnormal numbers below \<open>2^-1022\<close>, and leaves the exponent unbounded above:
  the callers compare the result with \<open>2^1024\<close>.
\<close>

definition ilog2 :: "rat \<Rightarrow> int" where
  "ilog2 q = (case quotient_of q of (a, b) \<Rightarrow>
     let k = bitlen a - bitlen b in if 2 powi k \<le> q then k else k - 1)"

definition round_half_even :: "rat \<Rightarrow> int" where
  "round_half_even x =
     (let f = \<lfloor>x\<rfloor>; r = x - of_int f
      in if r < 1 / 2 then f else if 1 / 2 < r then f + 1 else if even f then f else f + 1)"

definition ulp :: "rat \<Rightarrow> rat" where
  "ulp q = 2 powi (max (ilog2 \<bar>q\<bar>) (- 1022) - 52)"

definition round_double :: "rat \<Rightarrow> rat" where
  "round_double q = (if q = 0 then 0 else of_int (round_half_even (q / ulp q)) * ulp q)"

definition trunc :: "rat \<Rightarrow> int" where
  "trunc x = (if 0 \<le> x then \<lfloor>x\<rfloor> else \<lceil>x\<rceil>)"

definition progress_percent :: "int \<Rightarrow> int \<Rightarrow> exn + int" where
  "progress_percent downloaded total_size =
     (if total_size = 0 then Inl (OtherException (lit ''division by zero''))
      else
        let q = round_double (of_int downloaded / of_int total_size)
        in if 2 ^ 1024 \<le> \<bar>q\<bar>
           then Inl (OtherException (lit ''integer division result too large for a float''))
           else
             let p = round_double (q * 100)
             in if 2 ^ 1024 \<le> \<bar>p\<bar>
                then Inl (OtherException (lit ''cannot convert float infinity to integer''))
                else Inr (trunc p))"

subsection \<open>The world a worker acts on\<close>

datatype event = Progress str int | Finished str | Error str str

text \<open>
  What a worker does that can be seen from outside, in the order it does it: a read of
  \<^verbatim>\<open>self._is_interrupted\<close> with the value read, opening the destination for
  writing, a write of some bytes, a signal emitted, the removal of the destination.
\<close>

datatype action = FlagRead bool | FileOpen | FileWrite bytes | Emit event | FileRemove

record world =
  files :: "str \<rightharpoonup> bytes"
  trace :: "action list"
  flag_reads :: nat
  write_calls :: nat

record response =
  status_fault :: "exn option"
  content_length :: "(exn + int) option"
  content :: "exn + bytes"
  chunks :: "bytes list"
  stream_fault :: "exn option"

text \<open>
  \<open>status_fault\<close> is what \<^verbatim>\<open>raise_for_status()\<close> raises, if anything;
  \<open>content_length\<close> is the header after \<^verbatim>\<open>int(...)\<close>, absent, unparsable
  (\<^verbatim>\<open>ValueError\<close>) or a number; \<open>content\<close> is what \<^verbatim>\<open>response.content\<close> gives;
  \<open>chunks\<close> are the pieces \<^verbatim>\<open>iter_content(chunk_size=4096)\<close> yields, and
  \<open>stream_fault\<close> what it raises after them instead of stopping.

  In the environment, \<open>get_result\<close> is the outcome of \<^verbatim>\<open>requests.get\<close>,
  \<open>open_fault\<close>, \<open>close_fault\<close> and \<open>remove_fault\<close> what \<^verbatim>\<open>open\<close>, the close at the
  end of the \<^verbatim>\<open>with\<close> block and \<^verbatim>\<open>os.remove\<close> raise, \<open>write_fault k\<close> what the
  \<open>k\<close>-th call of \<^verbatim>\<open>f.write\<close> raises, and \<open>flag k\<close> the value the worker finds in
  \<^verbatim>\<open>self._is_interrupted\<close> at its \<open>k\<close>-th read (both counted from 0): the flag is
  set by another thread, so the worker only knows it through its reads.
\<close>

record env =
  get_result :: "exn + response"
  open_fault :: "exn option"
  write_fault :: "nat \<Rightarrow> exn option"
  close_fault :: "exn option"
  remove_fault :: "exn option"
  flag :: "nat \<Rightarrow> bool"

fun events_of :: "action list \<Rightarrow> event list" where
  "events_of [] = []"
| "events_of (Emit e # as) = e # events_of as"
| "events_of (_ # as) = events_of as"

definition emit :: "event \<Rightarrow> world \<Rightarrow> world" where
  "emit e w = w\<lparr>trace := trace w @ [Emit e]\<rparr>"

definition read_flag :: "env \<Rightarrow> world \<Rightarrow> bool \<times> world" where
  "read_flag en w =
     (flag en (flag_reads w),
      w\<lparr>trace := trace w @ [FlagRead (flag en (flag_reads w))],
        flag_reads := Suc (flag_reads w)\<rparr>)"

definition open_wb :: "str \<Rightarrow> env \<Rightarrow> world \<Rightarrow> exn option \<times> world" where
  "open_wb path en w =
     (case open_fault en of
        Some e \<Rightarrow> (Some e, w)
      | None \<Rightarrow> (None, w\<lparr>files := (files w)(path \<mapsto> []), trace := trace w @ [FileOpen]\<rparr>))"

definition f_write :: "str \<Rightarrow> bytes \<Rightarrow> env \<Rightarrow> world \<Rightarrow> exn option \<times> world" where
  "f_write path data en w =
     (case write_fault en (write_calls w) of
        Some e \<Rightarrow> (Some e, w\<lparr>write_calls := Suc (write_calls w)\<rparr>)
      | None \<Rightarrow>
          (None, w\<lparr>files := (files w)(path \<mapsto> (case files w path of None \<Rightarrow> [] | Some old \<Rightarrow> old) @ data),
                   trace := trace w @ [FileWrite data],
                   write_calls := Suc (write_calls w)\<rparr>))"

definition os_path_exists :: "str \<Rightarrow> world \<Rightarrow> bool" where
  "os_path_exists path w = (files w path \<noteq> None)"

definition os_remove :: "str \<Rightarrow> env \<Rightarrow> world \<Rightarrow> exn option \<times> world" where
  "os_remove path en w =
     (case remove_fault en of
        Some e \<Rightarrow> (Some e, w)
      | None \<Rightarrow> (None, w\<lparr>files := (files w)(path := None), trace := trace w @ [FileRemove]\<rparr>))"

subsection \<open>\<^verbatim>\<open>DownloadThread\<close>\<close>

text \<open>
  \<open>start_calls\<close> counts the calls of \<^verbatim>\<open>QThread.start()\<close> on the object; the
  UUID of \<^verbatim>\<open>uuid.uuid4()\<close> is given to the constructor.
\<close>

record download_thread =
  url :: str
  save_path :: str
  download_id :: str
  is_interrupted :: bool
  start_calls :: nat

definition DownloadThread_init :: "str \<Rightarrow> str \<Rightarrow> str \<Rightarrow> download_thread" where
  "DownloadThread_init u p uid =
     \<lparr>url = u, save_path = p, download_id = uid, is_interrupted = False, start_calls = 0\<rparr>"

definition interrupt :: "download_thread \<Rightarrow> download_thread" where
  "interrupt self = self\<lparr>is_interrupted := True\<rparr>"

definition thread_start :: "download_thread \<Rightarrow> download_thread" where
  "thread_start self = self\<lparr>start_calls := Suc (start_calls self)\<rparr>"

text \<open>
  The \<^verbatim>\<open>for\<close> loop over the chunks (lines 60 to 66). The result is the exception
  that leaves the loop, if any, and the world after it.
\<close>

fun chunk_loop ::
  "download_thread \<Rightarrow> env \<Rightarrow> int \<Rightarrow> int \<Rightarrow> bytes list \<Rightarrow> exn option \<Rightarrow> world \<Rightarrow> exn option \<times> world"
where
  "chunk_loop self en total_size downloaded [] fin w = (fin, w)"
| "chunk_loop self en total_size downloaded (data # rest) fin w =
     (case read_flag en w of
        (True, w1) \<Rightarrow> (Some (InterruptedError (lit ''Download interrupted by user'')), w1)
      | (False, w1) \<Rightarrow>
          (case f_write (save_path self) data en w1 of
             (Some e, w2) \<Rightarrow> (Some e, w2)
           | (None, w2) \<Rightarrow>
               (case progress_percent (downloaded + int (length data)) total_size of
                  Inl e \<Rightarrow> (Some e, w2)
                | Inr progress \<Rightarrow>
                    chunk_loop self en total_size (downloaded + int (length data)) rest fin
                      (emit (Progress (download_id self) progress) w2))))"

text \<open>The body of the \<^verbatim>\<open>with\<close> block (lines 55 to 66).\<close>

definition with_body ::
  "download_thread \<Rightarrow> env \<Rightarrow> response \<Rightarrow> int \<Rightarrow> world \<Rightarrow> exn option \<times> world"
where
  "with_body self en resp total_size w =
     (if total_size = 0 then
        (case read_flag en w of
           (True, w1) \<Rightarrow> (None, w1)
         | (False, w1) \<Rightarrow>
             (case content resp of
                Inl e \<Rightarrow> (Some e, w1)
              | Inr body \<Rightarrow> f_write (save_path self) body en w1))
      else chunk_loop self en total_size 0 (chunks resp) (stream_fault resp) w)"

text \<open>
  The \<^verbatim>\<open>try\<close> block (lines 49 to 69). Leaving the \<^verbatim>\<open>with\<close> block closes the
  file; an exception of the close replaces the one of the body.
\<close>

definition try_block :: "download_thread \<Rightarrow> env \<Rightarrow> world \<Rightarrow> exn option \<times> world" where
  "try_block self en w =
     (case get_result en of
        Inl e \<Rightarrow> (Some e, w)
      | Inr resp \<Rightarrow>
          (case status_fault resp of
             Some e \<Rightarrow> (Some e, w)
           | None \<Rightarrow>
               (case (case content_length resp of None \<Rightarrow> Inr 0 | Some r \<Rightarrow> r) of
                  Inl e \<Rightarrow> (Some e, w)
                | Inr total_size \<Rightarrow>
                    (case open_wb (save_path self) en w of
                       (Some e, w1) \<Rightarrow> (Some e, w1)
                     | (None, w1) \<Rightarrow>
                         (case with_body self en resp total_size w1 of
                            (r, w2) \<Rightarrow>
                              (case (case close_fault en of Some e \<Rightarrow> Some e | None \<Rightarrow> r) of
                                 Some e \<Rightarrow> (Some e, w2)
                               | None \<Rightarrow>
                                   (case read_flag en w2 of
                                      (True, w3) \<Rightarrow> (None, w3)
                                    | (False, w3) \<Rightarrow>
                                        (None, emit (Finished (download_id self)) w3))))))))"

text \<open>
  \<^verbatim>\<open>run\<close> with its two handlers. The result is the exception that escapes
  \<^verbatim>\<open>run\<close> (only \<^verbatim>\<open>os.remove\<close> in the first handler can raise one) and the world
  when the worker ends.
\<close>

definition run :: "download_thread \<Rightarrow> env \<Rightarrow> world \<Rightarrow> exn option \<times> world" where
  "run self en w =
     (case try_block self en w of
        (None, w1) \<Rightarrow> (None, w1)
      | (Some (InterruptedError m), w1) \<Rightarrow>
          (let w2 = emit (Error (download_id self) m) w1
           in if os_path_exists (save_path self) w2 then os_remove (save_path self) en w2
              else (None, w2))
      | (Some (OtherException m), w1) \<Rightarrow> (None, emit (Error (download_id self) m) w1))"

subsection \<open>\<^verbatim>\<open>DownloadWidget\<close>\<close>

text \<open>
  The widget with the state of its three child widgets: the text of the two labels,
  the value of the progress bar (a \<^verbatim>\<open>QProgressBar\<close> starts at \<open>-1\<close> with the range
  0 to 100 and ignores a value outside its range) and whether the interrupt button
  is enabled.
\<close>

record download_widget =
  w_url :: str
  w_save_path :: str
  thread :: "download_thread option"
  is_started :: bool
  is_finished :: bool
  w_download_id :: str
  url_label :: str
  progress_bar :: int
  interrupt_button :: bool
  status_label :: str

definition setValue :: "int \<Rightarrow> int \<Rightarrow> int" where
  "setValue v old = (if v < 0 \<or> 100 < v then old else v)"

definition DownloadWidget_init :: "str \<Rightarrow> str \<Rightarrow> str \<Rightarrow> download_widget" where
  "DownloadWidget_init u p uid =
     \<lparr>w_url = u, w_save_path = p,
      thread = Some (DownloadThread_init u p uid),
      is_started = False, is_finished = False,
      w_download_id = uid,
      url_label = lit ''URL: '' @ u,
      progress_bar = - 1,
      interrupt_button = False,
      status_label = lit ''Ready to download''\<rparr>"

definition start_download :: "download_widget \<Rightarrow> download_widget" where
  "start_download self =
     (case thread self of
        Some t \<Rightarrow>
          if \<not> is_started self
          then self\<lparr>thread := Some (thread_start t),
                    status_label := lit ''Downloading...'',
                    is_started := True,
                    interrupt_button := True\<rparr>
          else self
      | None \<Rightarrow> self)"

definition interrupt_download :: "download_widget \<Rightarrow> download_widget" where
  "interrupt_download self =
     (case thread self of
        Some t \<Rightarrow>
          if is_started self \<and> \<not> is_finished self
          then self\<lparr>thread := Some (interrupt t),
                    interrupt_button := False,
                    status_label := lit ''Interrupting...''\<rparr>
          else self
      | None \<Rightarrow> self)"

definition update_progress :: "str \<Rightarrow> int \<Rightarrow> download_widget \<Rightarrow> download_widget" where
  "update_progress thread_id progress self =
     (if thread_id = w_download_id self
      then self\<lparr>progress_bar := setValue progress (progress_bar self)\<rparr>
      else self)"

definition download_finished :: "str \<Rightarrow> download_widget \<Rightarrow> download_widget" where
  "download_finished thread_id self =
     (if thread_id = w_download_id self
      then self\<lparr>status_label := lit ''Complete!'',
                progress_bar := setValue 100 (progress_bar self),
                is_finished := True,
                interrupt_button := False\<rparr>
      else self)"

definition download_error :: "str \<Rightarrow> str \<Rightarrow> download_widget \<Rightarrow> download_widget" where
  "download_error thread_id error_msg self =
     (if thread_id = w_download_id self
      then self\<lparr>status_label := lit ''Error: '' @ error_msg,
                interrupt_button := False\<rparr>
      else self)"

text \<open>The connections made in \<^verbatim>\<open>_setup_thread\<close>: each signal goes to its slot.\<close>

fun deliver :: "event \<Rightarrow> download_widget \<Rightarrow> download_widget" where
  "deliver (Progress i p) self = update_progress i p self"
| "deliver (Finished i) self = download_finished i self"
| "deliver (Error i m) self = download_error i m self"

subsection \<open>\<^verbatim>\<open>DownloaderApp\<close>\<close>

text \<open>
  \<^verbatim>\<open>str.strip()\<close> removes the white space of both ends; these are the code points
  Python counts as white space. \<^verbatim>\<open>url.split('?')[0]\<close> is the part before the
  first question mark (code point 63), and \<^verbatim>\<open>os.path.basename\<close> (the POSIX one)
  the part after the last slash (code point 47).
\<close>

definition isspace :: "nat \<Rightarrow> bool" where
  "isspace c \<longleftrightarrow>
     (9 \<le> c \<and> c \<le> 13) \<or> (28 \<le> c \<and> c \<le> 32) \<or> c = 133 \<or> c = 160 \<or> c = 5760 \<or>
     (8192 \<le> c \<and> c \<le> 8202) \<or> c = 8232 \<or> c = 8233 \<or> c = 8239 \<or> c = 8287 \<or> c = 12288"

definition strip :: "str \<Rightarrow> str" where
  "strip s = rev (dropWhile isspace (rev (dropWhile isspace s)))"

definition basename :: "str \<Rightarrow> str" where
  "basename p = rev (takeWhile (\<lambda>c. c \<noteq> 47) (rev p))"

fun str_of_nat :: "nat \<Rightarrow> str" where
  "str_of_nat n = (if n < 10 then [48 + n] else str_of_nat (n div 10) @ [48 + n mod 10])"

text \<open>
  The layout holds the stretch and the widgets, each known by its id;
  \<open>deleted_later\<close> are the widgets handed to \<^verbatim>\<open>deleteLater()\<close>, as they were then.
\<close>

datatype layout_item = Stretch | WidgetItem str

record downloader_app =
  downloads :: "download_widget list"
  url_input :: str
  downloads_layout :: "layout_item list"
  deleted_later :: "download_widget list"

definition DownloaderApp_init :: downloader_app where
  "DownloaderApp_init =
     \<lparr>downloads = [], url_input = [], downloads_layout = [Stretch], deleted_later = []\<rparr>"

definition insertWidget :: "nat \<Rightarrow> layout_item \<Rightarrow> layout_item list \<Rightarrow> layout_item list" where
  "insertWidget i x xs = take i xs @ x # drop i xs"

definition add_download :: "str \<Rightarrow> downloader_app \<Rightarrow> downloader_app" where
  "add_download uid self =
     (let u = strip (url_input self)
      in if u = [] then self
         else
           let filename = basename (takeWhile (\<lambda>c. c \<noteq> 63) u);
               save = (if filename = []
                       then lit ''download_'' @ str_of_nat (length (downloads self) + 1)
                       else filename);
               download_widget = DownloadWidget_init u save uid
           in self\<lparr>downloads_layout :=
                      insertWidget (length (downloads self)) (WidgetItem (w_download_id download_widget))
                        (downloads_layout self),
                    downloads := downloads self @ [download_widget],
                    url_input := []\<rparr>)"

definition start_all_downloads :: "downloader_app \<Rightarrow> downloader_app" where
  "start_all_downloads self =
     self\<lparr>downloads :=
       map (\<lambda>download. if \<not> is_started download then start_download download else download)
         (downloads self)\<rparr>"

definition interrupt_all_downloads :: "downloader_app \<Rightarrow> downloader_app" where
  "interrupt_all_downloads self =
     self\<lparr>downloads :=
       map (\<lambda>download.
              if is_started download \<and> \<not> is_finished download
              then interrupt_download download else download)
         (downloads self)\<rparr>"

text \<open>
  \<^verbatim>\<open>clear_downloads\<close>: the dialog is shown only when the list is not empty, and
  \<open>reply\<close> is the button it returns.
\<close>

datatype reply = Yes | No

definition clear_downloads :: "reply \<Rightarrow> downloader_app \<Rightarrow> downloader_app" where
  "clear_downloads answer self =
     (if downloads self = [] then self
      else if answer = Yes then
        (let s1 = interrupt_all_downloads self
         in s1\<lparr>downloads_layout :=
                  foldl (\<lambda>l d. remove1 (WidgetItem (w_download_id d)) l) (downloads_layout s1)
                    (downloads s1),
                deleted_later := deleted_later s1 @ downloads s1,
                downloads := []\<rparr>)
      else self)"

subsection \<open>Concrete inputs\<close>

text \<open>
  A worker for \<^verbatim>\<open>http://example.test/file.bin\<close>, a world with no files, an
  environment in which nothing fails, a response without \<^verbatim>\<open>Content-Length\<close>
  and one of 1000 bytes in two chunks of 500.
\<close>

definition thread0 :: download_thread where
  "thread0 =
     DownloadThread_init (lit ''http://example.test/file.bin'') (lit ''file.bin'') (lit ''id-1'')"

definition world0 :: world where
  "world0 = \<lparr>files = Map.empty, trace = [], flag_reads = 0, write_calls = 0\<rparr>"

definition quiet_env :: "response \<Rightarrow> (nat \<Rightarrow> bool) \<Rightarrow> env" where
  "quiet_env resp fl =
     \<lparr>get_result = Inr resp, open_fault = None, write_fault = (\<lambda>_. None),
      close_fault = None, remove_fault = None, flag = fl\<rparr>"

definition unsized_response :: response where
  "unsized_response =
     \<lparr>status_fault = None, content_length = None, content = Inr [1, 2, 3],
      chunks = [[1, 2, 3]], stream_fault = None\<rparr>"

definition sized_response :: response where
  "sized_response =
     \<lparr>status_fault = None, content_length = Some (Inr 1000),
      content = Inr (replicate 1000 0),
      chunks = [replicate 500 0, replicate 500 0], stream_fault = None\<rparr>"

text \<open>
  An application with one download that was added, and then started; the same after its
  worker reported an error; one with two downloads that were added and never
  started; one whose input line holds a space, a tab and a no-break space.
\<close>

definition one_idle_app :: downloader_app where
  "one_idle_app =
     add_download (lit ''id-1'')
       (DownloaderApp_init\<lparr>url_input := lit ''http://example.test/file.bin''\<rparr>)"

definition example_app :: downloader_app where
  "example_app = start_all_downloads one_idle_app"

definition errored_app :: downloader_app where
  "errored_app =
     example_app\<lparr>downloads :=
       map (deliver (Error (lit ''id-1'') (lit ''404 Client Error''))) (downloads example_app)\<rparr>"

definition two_idle_app :: downloader_app where
  "two_idle_app =
     add_download (lit ''id-2'')
       ((add_download (lit ''id-1'')
           (DownloaderApp_init\<lparr>url_input := lit ''http://example.test/a.bin''\<rparr>))
        \<lparr>url_input := lit ''http://example.test/b.bin''\<rparr>)"

definition blank_app :: downloader_app where
  "blank_app = example_app\<lparr>url_input := [32, 9, 160]\<rparr>"

section \<open>Properties\<close>

subsection \<open>Evaluating the concrete inputs\<close>

lemma round_double_half: "round_double (1 / 2) = 1 / 2"
  by code_simp

lemma round_double_1: "round_double 1 = 1"
  by code_simp

lemma round_double_50: "round_double 50 = 50"
  by code_simp

lemma round_double_100: "round_double 100 = 100"
  by code_simp

lemma progress_percent_500_1000: "progress_percent 500 1000 = Inr 50"
  by (simp add: progress_percent_def round_double_half round_double_50 trunc_def)

lemma progress_percent_1000_1000: "progress_percent 1000 1000 = Inr 100"
  by (simp add: progress_percent_def round_double_1 round_double_100 trunc_def)

lemmas run_defs =
  run_def try_block_def with_body_def thread0_def world0_def quiet_env_def
  DownloadThread_init_def open_wb_def read_flag_def f_write_def emit_def
  os_path_exists_def os_remove_def

lemmas app_defs =
  one_idle_app_def example_app_def errored_app_def two_idle_app_def blank_app_def
  start_all_downloads_def add_download_def DownloaderApp_init_def
  strip_def isspace_def lit_def basename_def DownloadWidget_init_def
  DownloadThread_init_def Let_def insertWidget_def start_download_def thread_start_def
  download_error_def interrupt_all_downloads_def interrupt_download_def interrupt_def

subsection \<open>The worker and the interrupt flag\<close>

text \<open>
  C1 (the code departs from the claim). The claim: every execution of \<^verbatim>\<open>run()\<close>
  ends with exactly one terminal event, a Completion after the Progress events or an
  Error, whether or not the size is known and whether or not interruption was
  requested. The code: when the size is unknown and the flag is found set before the
  bulk write, \<^verbatim>\<open>run()\<close> returns having emitted nothing; when the size is known and
  the flag is set after the check of the last chunk, it emits the Progress events and
  no terminal event. Both come from the reads of the flag at lines 56 and 68, which
  skip the write and the completion signal and raise nothing.
\<close>

theorem run_interrupted_no_terminal_event:
  "events_of (trace (snd (run thread0 (quiet_env unsized_response (\<lambda>_. True)) world0))) = [] \<and>
   fst (run thread0 (quiet_env unsized_response (\<lambda>_. True)) world0) = None \<and>
   events_of (trace (snd (run thread0 (quiet_env sized_response (\<lambda>k. 2 \<le> k)) world0))) =
     [Progress (lit ''id-1'') 50, Progress (lit ''id-1'') 100]"
  by (simp add: run_defs unsized_response_def sized_response_def
      progress_percent_500_1000 progress_percent_1000_1000)

text \<open>
  C2 (the code departs from the claim). The claim: an interruption detected at the
  check before the single bulk write, when the total is unknown, makes \<^verbatim>\<open>run()\<close>
  delete the destination file and emit the Error event with the message
  ``Download interrupted by user''. The code: at that check it only skips the write.
  The worker opens the file, reads the flag twice, emits no event and removes
  nothing: the empty file it created stays.
\<close>

theorem run_interrupted_unsized_keeps_file:
  "trace (snd (run thread0 (quiet_env unsized_response (\<lambda>_. True)) world0)) =
     [FileOpen, FlagRead True, FlagRead True] \<and>
   files (snd (run thread0 (quiet_env unsized_response (\<lambda>_. True)) world0)) (save_path thread0) =
     Some []"
  by (simp add: run_defs unsized_response_def)

subsection \<open>The widget and the application\<close>

text \<open>
  C4 (the code departs from the claim). The claim: \<^verbatim>\<open>interrupt_all_downloads\<close>
  changes nothing about a record that is idle, finished or errored. The code has no
  mark for an errored record: \<^verbatim>\<open>download_error\<close> sets neither \<^verbatim>\<open>is_finished\<close>
  nor anything else the loop tests, so a started download whose worker reported an
  error is interrupted again. Its worker's flag goes from unset to set and its status
  from the error message to ``Interrupting...''.
\<close>

theorem interrupt_all_changes_errored:
  "map status_label (downloads errored_app) = [lit ''Error: 404 Client Error''] \<and>
   map (map_option is_interrupted \<circ> thread) (downloads errored_app) = [Some False] \<and>
   map status_label (downloads (interrupt_all_downloads errored_app)) = [lit ''Interrupting...''] \<and>
   map (map_option is_interrupted \<circ> thread) (downloads (interrupt_all_downloads errored_app)) =
     [Some True]"
  by (simp add: app_defs)

text \<open>Starting a started widget changes nothing, and one step of the loop twice is one step.\<close>

lemma start_download_started: "is_started d \<Longrightarrow> start_download d = d"
  by (simp add: start_download_def split: option.splits)

lemma start_step_idem:
  "(\<lambda>d. if \<not> is_started d then start_download d else d)
     ((\<lambda>d. if \<not> is_started d then start_download d else d) d) =
   (\<lambda>d. if \<not> is_started d then start_download d else d) d"
  by (simp add: start_download_def split: option.splits)

text \<open>
  C8. \<^verbatim>\<open>start_download\<close> on a widget that was started changes nothing (in
  particular not the number of calls of \<^verbatim>\<open>start()\<close> on its thread);
  \<^verbatim>\<open>start_all_downloads\<close> run twice is \<^verbatim>\<open>start_all_downloads\<close> run once; it
  leaves every started widget as it is; and after it every widget that has a thread
  is started, so that a later run finds nothing to start.
\<close>

theorem start_all_idempotent:
  "(is_started d \<longrightarrow> start_download d = d) \<and>
   start_all_downloads (start_all_downloads a) = start_all_downloads a \<and>
   (\<forall>i < length (downloads a). is_started (downloads a ! i) \<longrightarrow>
        downloads (start_all_downloads a) ! i = downloads a ! i) \<and>
   (\<forall>d \<in> set (downloads (start_all_downloads a)). \<forall>t. thread d = Some t \<longrightarrow> is_started d)"
proof (intro conjI)
  show "is_started d \<longrightarrow> start_download d = d"
    by (simp add: start_download_started)
  show "start_all_downloads (start_all_downloads a) = start_all_downloads a"
    using start_step_idem by (simp add: start_all_downloads_def comp_def)
  show "\<forall>i < length (downloads a). is_started (downloads a ! i) \<longrightarrow>
        downloads (start_all_downloads a) ! i = downloads a ! i"
    by (simp add: start_all_downloads_def)
  show "\<forall>d \<in> set (downloads (start_all_downloads a)). \<forall>t. thread d = Some t \<longrightarrow> is_started d"
    by (auto simp: start_all_downloads_def start_download_def split: option.splits)
qed

theorem start_all_idempotent_witness:
  "is_started (hd (downloads example_app)) \<and>
   map (map_option start_calls \<circ> thread) (downloads example_app) = [Some 1] \<and>
   start_download (hd (downloads example_app)) = hd (downloads example_app) \<and>
   map (map_option start_calls \<circ> thread) (downloads (start_all_downloads example_app)) = [Some 1]"
proof -
  have started: "is_started (hd (downloads example_app))"
    by (simp add: app_defs)
  have len: "0 < length (downloads example_app)"
    by (simp add: app_defs)
  have calls: "map (map_option start_calls \<circ> thread) (downloads example_app) = [Some 1]"
    by (simp add: app_defs)
  have same: "start_download (hd (downloads example_app)) = hd (downloads example_app)"
    using start_all_idempotent [of "hd (downloads example_app)" example_app] started by simp
  have "start_all_downloads (start_all_downloads one_idle_app) = start_all_downloads one_idle_app"
    using start_all_idempotent [of "hd (downloads example_app)" one_idle_app] by simp
  then have "start_all_downloads example_app = example_app"
    by (simp add: example_app_def)
  with started calls same show ?thesis
    by simp
qed

text \<open>
  C9. When the answer to the confirmation is Yes, \<^verbatim>\<open>clear_downloads\<close> leaves the
  list of downloads empty, with 0 records, whatever it held (so also when it held N
  downloads never started). The widgets it removes are the ones
  \<^verbatim>\<open>interrupt_all_downloads\<close> leaves: every widget that was started and not
  finished has had the flag of its thread set before removal, every other widget is
  removed as it was.
\<close>

theorem clear_downloads_empties:
  "downloads (clear_downloads Yes a) = [] \<and>
   length (downloads (clear_downloads Yes a)) = 0 \<and>
   (downloads a \<noteq> [] \<longrightarrow>
      deleted_later (clear_downloads Yes a) =
        deleted_later a @ downloads (interrupt_all_downloads a)) \<and>
   (\<forall>i < length (downloads a).
      (is_started (downloads a ! i) \<and> \<not> is_finished (downloads a ! i) \<longrightarrow>
         (\<forall>t. thread (downloads a ! i) = Some t \<longrightarrow>
            thread (downloads (interrupt_all_downloads a) ! i) = Some (t\<lparr>is_interrupted := True\<rparr>))) \<and>
      (\<not> (is_started (downloads a ! i) \<and> \<not> is_finished (downloads a ! i)) \<longrightarrow>
         downloads (interrupt_all_downloads a) ! i = downloads a ! i))"
  by (auto simp: clear_downloads_def interrupt_all_downloads_def Let_def
      interrupt_download_def interrupt_def)

theorem clear_downloads_empties_witness:
  "length (downloads two_idle_app) = 2 \<and>
   map is_started (downloads two_idle_app) = [False, False] \<and>
   downloads (clear_downloads Yes two_idle_app) = [] \<and>
   deleted_later (clear_downloads Yes two_idle_app) = downloads two_idle_app \<and>
   map (map_option is_interrupted \<circ> thread) (downloads (clear_downloads Yes example_app)) = [] \<and>
   map (map_option is_interrupted \<circ> thread) (deleted_later (clear_downloads Yes example_app)) =
     [Some True]"
proof -
  have two: "length (downloads two_idle_app) = 2"
    "map is_started (downloads two_idle_app) = [False, False]"
    "deleted_later two_idle_app = []"
    by (simp_all add: app_defs)
  have idle: "interrupt_all_downloads two_idle_app = two_idle_app"
    by (simp add: app_defs)
  have one: "downloads example_app \<noteq> []" "deleted_later example_app = []"
    "map (map_option is_interrupted \<circ> thread) (downloads (interrupt_all_downloads example_app)) =
       [Some True]"
    by (simp_all add: app_defs)
  from two have ne: "downloads two_idle_app \<noteq> []"
    by auto
  show ?thesis
    using clear_downloads_empties [of two_idle_app] clear_downloads_empties [of example_app]
      two idle one ne
    by simp
qed

text \<open>\<^verbatim>\<open>strip()\<close> leaves nothing exactly when every character is white space.\<close>

lemma all_dropWhile: "(\<forall>x\<in>set (dropWhile P xs). P x) \<longleftrightarrow> (\<forall>x\<in>set xs. P x)"
  by (induction xs) auto

lemma strip_empty_iff: "strip s = [] \<longleftrightarrow> (\<forall>c\<in>set s. isspace c)"
  by (simp add: strip_def all_dropWhile)

text \<open>
  C10. When the text of the input line is empty or holds only white space,
  \<^verbatim>\<open>add_download\<close> changes nothing: no widget is made, the list, the layout and
  the input line are as before.
\<close>

theorem add_download_blank:
  "\<forall>c \<in> set (url_input a). isspace c \<Longrightarrow> add_download uid a = a"
  by (simp add: add_download_def strip_empty_iff)

theorem add_download_blank_witness:
  "url_input blank_app = [32, 9, 160] \<and>
   add_download (lit ''id-2'') blank_app = blank_app \<and>
   add_download (lit ''id-2'') DownloaderApp_init = DownloaderApp_init"
proof -
  have input: "url_input blank_app = [32, 9, 160]"
    by (simp add: blank_app_def)
  then have "\<forall>c \<in> set (url_input blank_app). isspace c"
    by (simp add: isspace_def)
  then have blank: "add_download (lit ''id-2'') blank_app = blank_app"
    by (rule add_download_blank)
  have "\<forall>c \<in> set (url_input DownloaderApp_init). isspace c"
    by (simp add: DownloaderApp_init_def)
  then have "add_download (lit ''id-2'') DownloaderApp_init = DownloaderApp_init"
    by (rule add_download_blank)
  with input blank show ?thesis
    by simp
qed

end
